theory Spec2Isabelle
  imports Complex_Main
begin

section \<open>Python strings\<close>

text \<open>
  A Python \<open>str\<close> is a sequence of Unicode code points and \<open>len\<close> counts code points, so a
  string is a list of code points here (a HOL \<open>char\<close> is only a byte). \<open>lit\<close> turns an
  ASCII literal into such a list; code points beyond ASCII are written as numbers, exactly as
  they stand in the source file.
\<close>

type_synonym codepoint = nat
type_synonym pystr = "codepoint list"

definition lit :: "string \<Rightarrow> pystr" where
  "lit s = map of_char s"

text \<open>The code points for which \<open>str.isspace\<close> holds: what \<open>str.strip()\<close> removes.\<close>

definition is_space :: "codepoint \<Rightarrow> bool" where
  "is_space c \<longleftrightarrow>
     (9 \<le> c \<and> c \<le> 13) \<or> (28 \<le> c \<and> c \<le> 32) \<or> c = 133 \<or> c = 160 \<or> c = 5760 \<or>
     (8192 \<le> c \<and> c \<le> 8202) \<or> c = 8232 \<or> c = 8233 \<or> c = 8239 \<or> c = 8287 \<or> c = 12288"

definition py_lstrip :: "pystr \<Rightarrow> pystr" where
  "py_lstrip s = dropWhile is_space s"

definition py_rstrip :: "pystr \<Rightarrow> pystr" where
  "py_rstrip s = rev (dropWhile is_space (rev s))"

definition py_strip :: "pystr \<Rightarrow> pystr" where
  "py_strip s = py_rstrip (py_lstrip s)"

text \<open>
  \<open>split_once sep s\<close> cuts \<open>s\<close> at the first (leftmost) occurrence of \<open>sep\<close>: it is
  \<open>s.split(sep, 1)\<close> when \<open>sep\<close> occurs in \<open>s\<close>, and \<open>None\<close> when it does not. The
  source only splits after an \<open>in\<close> test has succeeded, and only on non-empty separators.
\<close>

fun split_once :: "pystr \<Rightarrow> pystr \<Rightarrow> (pystr \<times> pystr) option" where
  "split_once sep [] = (if sep = [] then Some ([], []) else None)"
| "split_once sep (c # cs) =
     (if take (length sep) (c # cs) = sep then Some ([], drop (length sep) (c # cs))
      else (case split_once sep cs of None \<Rightarrow> None | Some (a, b) \<Rightarrow> Some (c # a, b)))"

text \<open>\<open>sub in s\<close> on strings.\<close>

definition py_in :: "pystr \<Rightarrow> pystr \<Rightarrow> bool" where
  "py_in sub s \<longleftrightarrow> split_once sub s \<noteq> None"

text \<open>\<open>sep.join(xs)\<close> for a list of strings.\<close>

fun py_join :: "pystr \<Rightarrow> pystr list \<Rightarrow> pystr" where
  "py_join sep [] = []"
| "py_join sep [x] = x"
| "py_join sep (x # y # ys) = x @ sep @ py_join sep (y # ys)"

text \<open>
  \<open>str.lower()\<close> on the letters A to Z. Code points beyond ASCII are left as they are; the
  source uses \<open>lower\<close> only to compare with \<open>"none"\<close>, and no code point outside ASCII
  lowercases to \<open>n\<close>, \<open>o\<close> or \<open>e\<close>.
\<close>

definition py_lower :: "pystr \<Rightarrow> pystr" where
  "py_lower s = map (\<lambda>c. if 65 \<le> c \<and> c \<le> 90 then c + 32 else c) s"

text \<open>\<open>str(n)\<close> for a non-negative integer, as the f-strings format \<open>len(memory)\<close>.\<close>

fun str_of_nat :: "nat \<Rightarrow> pystr" where
  "str_of_nat n = (if n < 10 then [48 + n] else str_of_nat (n div 10) @ [48 + n mod 10])"

declare str_of_nat.simps [simp del]

section \<open>Python values and dictionaries\<close>

text \<open>
  The values a preferences dictionary holds, whether \<open>to_dict\<close> built it or \<open>json.load\<close>
  read it: \<open>None\<close>, booleans, integers, strings, lists and dictionaries with string keys.
  A dictionary is an association list in insertion order; \<open>dict_get\<close> is \<open>dict.get\<close>.
  JSON floats are left out: no field of the schema holds one.
\<close>

datatype py =
    PNone
  | PBool bool
  | PInt int
  | PStr pystr
  | PList "py list"
  | PDict "(pystr \<times> py) list"

type_synonym dict = "(pystr \<times> py) list"

definition dict_get :: "dict \<Rightarrow> pystr \<Rightarrow> py option" where
  "dict_get d k = map_of d k"

definition dict_get_or :: "dict \<Rightarrow> pystr \<Rightarrow> py \<Rightarrow> py" where
  "dict_get_or d k dflt = (case dict_get d k of None \<Rightarrow> dflt | Some v \<Rightarrow> v)"

text \<open>Truth value of a Python object, as \<open>if x\<close> and \<open>not x\<close> test it.\<close>

fun truthy :: "py \<Rightarrow> bool" where
  "truthy PNone = False"
| "truthy (PBool b) = b"
| "truthy (PInt i) = (i \<noteq> 0)"
| "truthy (PStr s) = (s \<noteq> [])"
| "truthy (PList xs) = (xs \<noteq> [])"
| "truthy (PDict kvs) = (kvs \<noteq> [])"

text \<open>
  Iterating over a value: a list gives its elements, a string its characters, a dictionary
  its keys; anything else is not iterable (\<open>None\<close> here stands for the \<open>TypeError\<close>).
\<close>

fun py_iter :: "py \<Rightarrow> py list option" where
  "py_iter (PList xs) = Some xs"
| "py_iter (PStr s) = Some (map (\<lambda>c. PStr [c]) s)"
| "py_iter (PDict kvs) = Some (map (\<lambda>kv. PStr (fst kv)) kvs)"
| "py_iter PNone = None"
| "py_iter (PBool b) = None"
| "py_iter (PInt i) = None"

text \<open>
  What loading can end in besides a value. \<open>TypeError\<close> and \<open>AttributeError\<close> are raised by
  the source. \<open>OutsideAnnotations\<close> is not an exception: the dataclasses do not check their
  field types, so the source would store a value that the annotation of the field excludes;
  the records below are typed as annotated, and the model stops there instead of following
  the source further.
\<close>

datatype load_error = TypeError | AttributeError | OutsideAnnotations

definition and_then :: "'e + 'a \<Rightarrow> ('a \<Rightarrow> 'e + 'b) \<Rightarrow> 'e + 'b" where
  "and_then r f = (case r of Inl e \<Rightarrow> Inl e | Inr x \<Rightarrow> f x)"

text \<open>A list comprehension whose body may raise: the first failure ends it.\<close>

fun map_err :: "('a \<Rightarrow> 'e + 'b) \<Rightarrow> 'a list \<Rightarrow> 'e + 'b list" where
  "map_err f [] = Inr []"
| "map_err f (x # xs) =
     (case f x of Inl e \<Rightarrow> Inl e
      | Inr y \<Rightarrow> (case map_err f xs of Inl e \<Rightarrow> Inl e | Inr ys \<Rightarrow> Inr (y # ys)))"

fun as_str :: "py \<Rightarrow> pystr option" where
  "as_str (PStr s) = Some s"
| "as_str PNone = None"
| "as_str (PBool b) = None"
| "as_str (PInt i) = None"
| "as_str (PList xs) = None"
| "as_str (PDict kvs) = None"

text \<open>\<open>sep.join(v)\<close> for an arbitrary value \<open>v\<close>: every item must be a string.\<close>

definition join_value :: "pystr \<Rightarrow> py \<Rightarrow> load_error + pystr" where
  "join_value sep v =
     (case py_iter v of
        None \<Rightarrow> Inl TypeError
      | Some items \<Rightarrow>
          (if list_all (\<lambda>x. as_str x \<noteq> None) items
           then Inr (py_join sep (map (\<lambda>x. the (as_str x)) items))
           else Inl TypeError))"

section \<open>The dataclasses\<close>

record QueryRecord =
  timestamp :: pystr
  topic :: pystr
  time_range :: pystr
  results_count :: int

text \<open>
  The first field of \<open>FeedbackRecord\<close> is \<open>timestamp\<close> in the source; it is \<open>fb_timestamp\<close>
  here, since the two records live in one name space.
\<close>

record FeedbackRecord =
  fb_timestamp :: pystr
  paper_id :: pystr
  paper_title :: pystr
  feedback_type :: pystr
  feedback_reason :: pystr

record Preferences =
  preference_memory :: pystr
  pending_updates :: "pystr list"
  query_history :: "QueryRecord list"
  feedback_history :: "FeedbackRecord list"
  language :: "pystr option"
  search_mode :: "pystr option"
  max_workers :: "int option"
  save_to_local :: "bool option"
  output_dir :: "pystr option"
  save_results :: "bool option"
  max_display :: "int option"
  auto_summary :: "bool option"
  arxiv_categories :: "pystr list option"
  last_updated :: pystr

text \<open>\<open>Preferences()\<close>: every field at its default.\<close>

definition default_Preferences :: Preferences where
  "default_Preferences =
     \<lparr>preference_memory = [], pending_updates = [], query_history = [], feedback_history = [],
      language = None, search_mode = None, max_workers = None, save_to_local = None,
      output_dir = None, save_results = None, max_display = None, auto_summary = None,
      arxiv_categories = None, last_updated = []\<rparr>"

subsection \<open>Typed values as Python values\<close>

definition of_opt_str :: "pystr option \<Rightarrow> py" where
  "of_opt_str v = (case v of None \<Rightarrow> PNone | Some s \<Rightarrow> PStr s)"

definition of_opt_int :: "int option \<Rightarrow> py" where
  "of_opt_int v = (case v of None \<Rightarrow> PNone | Some i \<Rightarrow> PInt i)"

definition of_opt_bool :: "bool option \<Rightarrow> py" where
  "of_opt_bool v = (case v of None \<Rightarrow> PNone | Some b \<Rightarrow> PBool b)"

definition of_str_list :: "pystr list \<Rightarrow> py" where
  "of_str_list xs = PList (map PStr xs)"

definition of_opt_str_list :: "pystr list option \<Rightarrow> py" where
  "of_opt_str_list v = (case v of None \<Rightarrow> PNone | Some xs \<Rightarrow> of_str_list xs)"

text \<open>
  The other direction: reading a stored value at the type its field is annotated with.
  A value of another type gives \<open>OutsideAnnotations\<close>.
\<close>

fun to_str :: "py \<Rightarrow> load_error + pystr" where
  "to_str (PStr s) = Inr s"
| "to_str v = Inl OutsideAnnotations"

fun to_int :: "py \<Rightarrow> load_error + int" where
  "to_int (PInt i) = Inr i"
| "to_int v = Inl OutsideAnnotations"

fun to_str_list :: "py \<Rightarrow> load_error + pystr list" where
  "to_str_list (PList xs) = map_err to_str xs"
| "to_str_list v = Inl OutsideAnnotations"

fun to_opt_str :: "py \<Rightarrow> load_error + pystr option" where
  "to_opt_str PNone = Inr None"
| "to_opt_str (PStr s) = Inr (Some s)"
| "to_opt_str v = Inl OutsideAnnotations"

fun to_opt_int :: "py \<Rightarrow> load_error + int option" where
  "to_opt_int PNone = Inr None"
| "to_opt_int (PInt i) = Inr (Some i)"
| "to_opt_int v = Inl OutsideAnnotations"

fun to_opt_bool :: "py \<Rightarrow> load_error + bool option" where
  "to_opt_bool PNone = Inr None"
| "to_opt_bool (PBool b) = Inr (Some b)"
| "to_opt_bool v = Inl OutsideAnnotations"

fun to_opt_str_list :: "py \<Rightarrow> load_error + pystr list option" where
  "to_opt_str_list PNone = Inr None"
| "to_opt_str_list (PList xs) =
     (case map_err to_str xs of Inl e \<Rightarrow> Inl e | Inr ys \<Rightarrow> Inr (Some ys))"
| "to_opt_str_list v = Inl OutsideAnnotations"

subsection \<open>\<open>QueryRecord\<close> and \<open>FeedbackRecord\<close>\<close>

text \<open>\<open>to_dict\<close> is \<open>asdict(self)\<close>: one entry per field, in field order.\<close>

definition QueryRecord_to_dict :: "QueryRecord \<Rightarrow> py" where
  "QueryRecord_to_dict q =
     PDict [(lit ''timestamp'', PStr (timestamp q)),
            (lit ''topic'', PStr (topic q)),
            (lit ''time_range'', PStr (time_range q)),
            (lit ''results_count'', PInt (results_count q))]"

text \<open>
  \<open>from_dict\<close> is \<open>cls(**data)\<close>: \<open>data\<close> must be a mapping, and its keys must be exactly the
  field names (a missing or an unexpected keyword argument is a \<open>TypeError\<close>).
\<close>

definition kwarg :: "dict \<Rightarrow> pystr \<Rightarrow> (py \<Rightarrow> load_error + 'a) \<Rightarrow> load_error + 'a" where
  "kwarg kvs k conv = (case dict_get kvs k of None \<Rightarrow> Inl TypeError | Some v \<Rightarrow> conv v)"

definition QueryRecord_from_dict :: "py \<Rightarrow> load_error + QueryRecord" where
  "QueryRecord_from_dict data =
     (case data of
        PDict kvs \<Rightarrow>
          (if set (map fst kvs) =
                {lit ''timestamp'', lit ''topic'', lit ''time_range'', lit ''results_count''}
           then
             and_then (kwarg kvs (lit ''timestamp'') to_str) (\<lambda>a.
             and_then (kwarg kvs (lit ''topic'') to_str) (\<lambda>b.
             and_then (kwarg kvs (lit ''time_range'') to_str) (\<lambda>c.
             and_then (kwarg kvs (lit ''results_count'') to_int) (\<lambda>n.
               Inr \<lparr>timestamp = a, topic = b, time_range = c, results_count = n\<rparr>))))
           else Inl TypeError)
      | _ \<Rightarrow> Inl TypeError)"

definition FeedbackRecord_to_dict :: "FeedbackRecord \<Rightarrow> py" where
  "FeedbackRecord_to_dict f =
     PDict [(lit ''timestamp'', PStr (fb_timestamp f)),
            (lit ''paper_id'', PStr (paper_id f)),
            (lit ''paper_title'', PStr (paper_title f)),
            (lit ''feedback_type'', PStr (feedback_type f)),
            (lit ''feedback_reason'', PStr (feedback_reason f))]"

definition FeedbackRecord_from_dict :: "py \<Rightarrow> load_error + FeedbackRecord" where
  "FeedbackRecord_from_dict data =
     (case data of
        PDict kvs \<Rightarrow>
          (if set (map fst kvs) =
                {lit ''timestamp'', lit ''paper_id'', lit ''paper_title'', lit ''feedback_type'',
                 lit ''feedback_reason''}
           then
             and_then (kwarg kvs (lit ''timestamp'') to_str) (\<lambda>a.
             and_then (kwarg kvs (lit ''paper_id'') to_str) (\<lambda>b.
             and_then (kwarg kvs (lit ''paper_title'') to_str) (\<lambda>c.
             and_then (kwarg kvs (lit ''feedback_type'') to_str) (\<lambda>d.
             and_then (kwarg kvs (lit ''feedback_reason'') to_str) (\<lambda>e.
               Inr \<lparr>fb_timestamp = a, paper_id = b, paper_title = c, feedback_type = d,
                    feedback_reason = e\<rparr>)))))
           else Inl TypeError)
      | _ \<Rightarrow> Inl TypeError)"

subsection \<open>\<open>Preferences.to_dict\<close> and \<open>Preferences.from_dict\<close>\<close>

definition to_dict :: "Preferences \<Rightarrow> py" where
  "to_dict p =
     PDict [(lit ''preference_memory'', PStr (preference_memory p)),
            (lit ''pending_updates'', of_str_list (pending_updates p)),
            (lit ''query_history'', PList (map QueryRecord_to_dict (query_history p))),
            (lit ''feedback_history'', PList (map FeedbackRecord_to_dict (feedback_history p))),
            (lit ''language'', of_opt_str (language p)),
            (lit ''search_mode'', of_opt_str (search_mode p)),
            (lit ''max_workers'', of_opt_int (max_workers p)),
            (lit ''save_to_local'', of_opt_bool (save_to_local p)),
            (lit ''output_dir'', of_opt_str (output_dir p)),
            (lit ''save_results'', of_opt_bool (save_results p)),
            (lit ''max_display'', of_opt_int (max_display p)),
            (lit ''auto_summary'', of_opt_bool (auto_summary p)),
            (lit ''arxiv_categories'', of_opt_str_list (arxiv_categories p)),
            (lit ''last_updated'', PStr (last_updated p))]"

text \<open>
  One legacy keyword list: \<open>if data.get(key): old_parts.append(f"label{', '.join(data[key])}")\<close>.
  The result is the list of parts this field contributes: none or one.
\<close>

definition legacy_part :: "dict \<Rightarrow> pystr \<Rightarrow> pystr \<Rightarrow> load_error + pystr list" where
  "legacy_part data key label =
     (if truthy (dict_get_or data key PNone)
      then and_then (join_value (lit '', '') (dict_get_or data key PNone))
             (\<lambda>joined. Inr [label @ joined])
      else Inr [])"

text \<open>
  The migration branch of \<open>from_dict\<close>: the four keyword lists in the order of the source,
  then \<open>custom_preferences\<close> appended as it is, and the parts joined with one blank. The
  final \<open>" ".join(old_parts)\<close> is a \<open>TypeError\<close> when \<open>custom_preferences\<close> is not a string.
\<close>

definition migrate :: "dict \<Rightarrow> load_error + pystr" where
  "migrate data =
     and_then (legacy_part data (lit ''interested_keywords'') (lit ''Interested in: '')) (\<lambda>p1.
     and_then (legacy_part data (lit ''not_interested_keywords'') (lit ''Not interested in: '')) (\<lambda>p2.
     and_then (legacy_part data (lit ''interested_topics'') (lit ''Interested topics: '')) (\<lambda>p3.
     and_then (legacy_part data (lit ''not_interested_topics'') (lit ''Topics to avoid: '')) (\<lambda>p4.
       (let custom = dict_get_or data (lit ''custom_preferences'') PNone;
            old_parts = map PStr (p1 @ p2 @ p3 @ p4) @ (if truthy custom then [custom] else [])
        in join_value (lit '' '') (PList old_parts))))))"

text \<open>\<open>[cls.from_dict(x) for x in v]\<close>: \<open>v\<close> must be iterable.\<close>

definition from_dict_each :: "(py \<Rightarrow> load_error + 'a) \<Rightarrow> py \<Rightarrow> load_error + 'a list" where
  "from_dict_each f v = (case py_iter v of None \<Rightarrow> Inl TypeError | Some xs \<Rightarrow> map_err f xs)"

text \<open>
  \<open>data\<close> is whatever \<open>json.load\<close> returned; \<open>data.get\<close> on anything but a dictionary is an
  \<open>AttributeError\<close>. The fields are evaluated in the order of the source, and the first
  problem ends the evaluation.
\<close>

definition from_dict :: "py \<Rightarrow> load_error + Preferences" where
  "from_dict d =
     (case d of
        PDict data \<Rightarrow>
          and_then (let pm = dict_get_or data (lit ''preference_memory'') (PStr [])
                    in if \<not> truthy pm then migrate data else to_str pm) (\<lambda>pm.
          and_then (to_str_list (dict_get_or data (lit ''pending_updates'') (PList []))) (\<lambda>pu.
          and_then (from_dict_each QueryRecord_from_dict
                      (dict_get_or data (lit ''query_history'') (PList []))) (\<lambda>qh.
          and_then (from_dict_each FeedbackRecord_from_dict
                      (dict_get_or data (lit ''feedback_history'') (PList []))) (\<lambda>fh.
          and_then (to_opt_str (dict_get_or data (lit ''language'') PNone)) (\<lambda>la.
          and_then (to_opt_str (dict_get_or data (lit ''search_mode'') PNone)) (\<lambda>sm.
          and_then (to_opt_int (dict_get_or data (lit ''max_workers'') PNone)) (\<lambda>mw.
          and_then (to_opt_bool (dict_get_or data (lit ''save_to_local'') PNone)) (\<lambda>sl.
          and_then (to_opt_str (dict_get_or data (lit ''output_dir'') PNone)) (\<lambda>od.
          and_then (to_opt_bool (dict_get_or data (lit ''save_results'') PNone)) (\<lambda>sr.
          and_then (to_opt_int (dict_get_or data (lit ''max_display'') PNone)) (\<lambda>md.
          and_then (to_opt_bool (dict_get_or data (lit ''auto_summary'') PNone)) (\<lambda>au.
          and_then (to_opt_str_list (dict_get_or data (lit ''arxiv_categories'') PNone)) (\<lambda>ac.
          and_then (to_str (dict_get_or data (lit ''last_updated'') (PStr []))) (\<lambda>lu.
            Inr \<lparr>preference_memory = pm, pending_updates = pu, query_history = qh,
                 feedback_history = fh, language = la, search_mode = sm, max_workers = mw,
                 save_to_local = sl, output_dir = od, save_results = sr, max_display = md,
                 auto_summary = au, arxiv_categories = ac, last_updated = lu\<rparr>))))))))))))))
      | _ \<Rightarrow> Inl AttributeError)"

section \<open>The preference manager\<close>

text \<open>
  What is stored at \<open>preferences_file\<close>: nothing, a file that is not JSON, or a JSON value.
\<close>

datatype disk = NoFile | Garbage | Json py

text \<open>
  The state of a \<open>PreferenceManager\<close>: the \<open>Preferences\<close> object it holds and the file it
  writes. \<open>_lock\<close> is not a field: every function below is one atomic step, except where a
  parameter says what other threads do in between. \<open>_notification_queue\<close> is never used.
\<close>

record manager =
  preferences :: Preferences
  preferences_file :: disk

text \<open>
  \<open>_load_preferences\<close>: a missing file and a file that is not JSON both give the defaults
  (\<open>JSONDecodeError\<close> is caught); what \<open>from_dict\<close> raises is not caught.
\<close>

definition load_preferences :: "disk \<Rightarrow> load_error + Preferences" where
  "load_preferences f =
     (case f of
        NoFile \<Rightarrow> Inr default_Preferences
      | Garbage \<Rightarrow> Inr default_Preferences
      | Json data \<Rightarrow> from_dict data)"

text \<open>Exceptions that carry a message; \<open>str_exn\<close> is \<open>str(e)\<close>.\<close>

datatype exn_class = PermissionError | RuntimeError | ConnectionError | ValueError | OSError

datatype exn = Raised exn_class pystr

fun str_exn :: "exn \<Rightarrow> pystr" where
  "str_exn (Raised c msg) = msg"

text \<open>
  What the environment decides at one call of \<open>save_preferences\<close>: the clock
  (\<open>datetime.now().isoformat()\<close>) and whether creating the directory or opening the file
  fails. A failed write is modelled as failing before the file is touched.
\<close>

record io =
  now :: pystr
  write_error :: "exn option"

text \<open>
  \<open>save_preferences\<close> returns the exception it raises, if any, and the state it leaves;
  \<open>last_updated\<close> is set before the write is attempted.
\<close>

definition save_preferences :: "io \<Rightarrow> manager \<Rightarrow> exn option \<times> manager" where
  "save_preferences env m =
     (let m1 = m\<lparr>preferences := (preferences m)\<lparr>last_updated := now env\<rparr>\<rparr>
      in case write_error env of
           Some e \<Rightarrow> (Some e, m1)
         | None \<Rightarrow> (None, m1\<lparr>preferences_file := Json (to_dict (preferences m1))\<rparr>))"

definition add_preference_update :: "pystr \<Rightarrow> bool \<Rightarrow> io \<Rightarrow> manager \<Rightarrow> exn option \<times> manager" where
  "add_preference_update update_text save env m =
     (if update_text \<noteq> [] \<and> py_strip update_text \<noteq> []
      then
        (let m1 = m\<lparr>preferences := (preferences m)
                      \<lparr>pending_updates := pending_updates (preferences m) @ [py_strip update_text]\<rparr>\<rparr>
         in if save then save_preferences env m1 else (None, m1))
      else (None, m))"

section \<open>The completion capability\<close>

record message =
  role :: pystr
  content :: pystr

text \<open>
  An \<open>llm_client\<close> is what \<open>llm_client.chat(messages, temperature=t)\<close> does: it raises or
  returns a string. A request is the pair of arguments of one such call.
\<close>

type_synonym request = "message list \<times> real"
type_synonym llm_client = "message list \<Rightarrow> real \<Rightarrow> exn + pystr"

text \<open>
  \<open>LLMClient.chat\<close> itself. The HTTP exchange with its retries is the environment: an
  \<open>endpoint\<close> says, for a request, which exception ends it or which text chunks the reply
  carries (none when the reply has no candidates). \<open>chat\<close> returns
  \<open>"".join(text_chunks).strip()\<close>.
\<close>

type_synonym endpoint = "message list \<Rightarrow> real \<Rightarrow> exn + pystr list"

definition chat :: "endpoint \<Rightarrow> llm_client" where
  "chat ep messages temperature =
     (case ep messages temperature of
        Inl e \<Rightarrow> Inl e
      | Inr text_chunks \<Rightarrow> Inr (py_strip (concat text_chunks)))"

section \<open>Merging and compressing the memory\<close>

definition MAX_MEMORY_LENGTH :: nat where
  "MAX_MEMORY_LENGTH = 2000"

definition TARGET_MEMORY_LENGTH :: nat where
  "TARGET_MEMORY_LENGTH = 1500"

text \<open>\<open>self.preferences.language or "en"\<close>\<close>

definition lang_of :: "manager \<Rightarrow> pystr" where
  "lang_of m =
     (case language (preferences m) of
        None \<Rightarrow> lit ''en''
      | Some l \<Rightarrow> if l = [] then lit ''en'' else l)"

text \<open>
  The non-ASCII code points of the source file: the parenthesis of the two language
  instructions and the mark that opens each notification.
\<close>

definition zh_name :: pystr where
  "zh_name = [231, 174, 8364, 228, 189, 8220, 228, 184, 173, 230, 8211, 8225]"

definition mark :: pystr where
  "mark = [240, 376, 8212, 339, 239, 184]"

definition merge_system_prompt :: "pystr \<Rightarrow> pystr" where
  "merge_system_prompt lang =
     py_join [10]
       [lit ''You are a preference memory manager. Your task is to maintain a concise natural language description of a user's research interests and preferences.'',
        [],
        lit ''RULES:'',
        lit ''1. Integrate new information into existing memory'',
        lit ''2. Resolve contradictions: newer info overrides older (e.g., if user now likes RAG but memory says they don't, update to like RAG)'',
        lit ''3. Keep the description natural and readable'',
        lit ''4. Be concise but comprehensive'',
        lit ''5. Focus on: topics of interest, topics to avoid, preferred paper types, research areas'',
        [],
        (if lang = lit ''zh''
         then lit ''Provide description in Chinese ('' @ zh_name @ lit '').''
         else lit ''Provide description in English.''),
        lit ''Output ONLY the updated preference description, nothing else.'']"

definition merge_user_prompt :: "pystr \<Rightarrow> pystr \<Rightarrow> pystr" where
  "merge_user_prompt current_memory new_info =
     py_join [10]
       [lit ''Current memory:'',
        (if current_memory \<noteq> [] then current_memory else lit ''(empty)''),
        [],
        lit ''New information to integrate:'',
        new_info,
        [],
        lit ''Output the updated preference description:'']"

text \<open>The two messages of the merge request, built from the state after the drain.\<close>

definition merge_messages :: "manager \<Rightarrow> pystr list \<Rightarrow> message list" where
  "merge_messages m pending =
     [\<lparr>role = lit ''system'', content = merge_system_prompt (lang_of m)\<rparr>,
      \<lparr>role = lit ''user'',
       content = merge_user_prompt (preference_memory (preferences m)) (py_join [10] pending)\<rparr>]"

definition compress_system_prompt :: "pystr \<Rightarrow> pystr \<Rightarrow> pystr" where
  "compress_system_prompt lang memory =
     py_join [10]
       [lit ''You are a memory compression assistant. The user's preference memory is too long and needs to be compressed.'',
        [],
        lit ''RULES:'',
        lit ''1. Keep the most important and recent preferences'',
        lit ''2. Remove redundant or less important details'',
        lit ''3. Maintain natural language flow'',
        lit ''4. Target length: around '' @ str_of_nat TARGET_MEMORY_LENGTH @ lit '' characters'',
        lit ''5. If you must remove something significant, note what category was trimmed'',
        [],
        (if lang = lit ''zh''
         then lit ''Provide output in Chinese ('' @ zh_name @ lit '').''
         else lit ''Provide output in English.''),
        [],
        lit ''Current length: '' @ str_of_nat (length memory) @ lit '' characters'',
        lit ''Target: '' @ str_of_nat TARGET_MEMORY_LENGTH @ lit '' characters'',
        [],
        lit ''Output format:'',
        lit ''COMPRESSED_MEMORY:'',
        lit ''<the compressed memory>'',
        [],
        lit ''REMOVED_TOPICS (if any were removed):'',
        lit ''<brief description of what was removed, or \"None\">'']"

definition compress_messages :: "manager \<Rightarrow> pystr \<Rightarrow> message list" where
  "compress_messages m memory =
     [\<lparr>role = lit ''system'', content = compress_system_prompt (lang_of m) memory\<rparr>,
      \<lparr>role = lit ''user'', content = lit ''Memory to compress:'' @ [10] @ memory\<rparr>]"

text \<open>
  The parser inside \<open>_compress_memory\<close>: from the response to the pair
  \<open>(compressed, removed)\<close>.
\<close>

definition parse_response :: "pystr \<Rightarrow> pystr \<times> pystr" where
  "parse_response response =
     (case split_once (lit ''COMPRESSED_MEMORY:'') response of
        Some (before, parts) \<Rightarrow>
          (case split_once (lit ''REMOVED_TOPICS'') parts of
             Some (compressed, removed_part) \<Rightarrow>
               (py_strip compressed,
                (case split_once (lit '':'') removed_part of
                   Some (head, rest) \<Rightarrow> py_strip rest
                 | None \<Rightarrow> []))
           | None \<Rightarrow> (py_strip parts, []))
      | None \<Rightarrow> (py_strip response, []))"

definition compressed_notification :: "pystr \<Rightarrow> pystr" where
  "compressed_notification removed =
     (if removed \<noteq> [] \<and> py_lower removed \<noteq> lit ''none''
      then mark @ lit '' Memory compressed. Removed: '' @ removed
      else mark @ lit '' Memory compressed to fit size limit.'')"

definition truncated_notification :: pystr where
  "truncated_notification = mark @ lit '' Memory truncated due to size limit.''"

record compress_result =
  memory :: pystr
  notification :: pystr

text \<open>
  \<open>_compress_memory\<close>. Everything that can raise stands inside its \<open>try\<close>, whose handler
  catches every \<open>Exception\<close>, so the function returns a result and never an exception. The
  second component is the request it sent.
\<close>

definition compress_memory :: "llm_client \<Rightarrow> manager \<Rightarrow> pystr \<Rightarrow> compress_result \<times> request" where
  "compress_memory llm_client m mem =
     (let messages = compress_messages m mem
      in (case llm_client messages (2 / 10) of
            Inr response \<Rightarrow>
              (let (compressed, removed) = parse_response response
               in \<lparr>memory = compressed, notification = compressed_notification removed\<rparr>)
          | Inl e \<Rightarrow>
              \<lparr>memory = take TARGET_MEMORY_LENGTH mem, notification = truncated_notification\<rparr>,
          (messages, 2 / 10)))"

text \<open>The dictionary \<open>_process_memory_update\<close> returns, by its \<open>status\<close>.\<close>

datatype merge_result = NoUpdates | Success "pystr option" | Error pystr

text \<open>\<open>result.get("notification")\<close>\<close>

fun get_notification :: "merge_result \<Rightarrow> pystr option" where
  "get_notification (Success n) = n"
| "get_notification NoUpdates = None"
| "get_notification (Error msg) = None"

text \<open>The handler of \<open>_process_memory_update\<close>: the drained fragments go back in front.\<close>

definition restore_pending :: "pystr list \<Rightarrow> manager \<Rightarrow> manager" where
  "restore_pending pending m =
     m\<lparr>preferences := (preferences m)
         \<lparr>pending_updates := pending @ pending_updates (preferences m)\<rparr>\<rparr>"

text \<open>
  \<open>_process_memory_update\<close>. The drain is one step under the lock; the prompts are built
  from the state right after it. While this thread waits for the completion call, other
  threads may act on the manager: \<open>others\<close> is what they do in that time (\<open>id\<close> when
  nothing else runs). The result is the returned dictionary, the state left behind and the
  requests sent, in order.
\<close>

text \<open>The drain: \<open>pending_updates\<close> is copied and then cleared, under the lock.\<close>

definition drained :: "manager \<Rightarrow> manager" where
  "drained m = m\<lparr>preferences := (preferences m)\<lparr>pending_updates := []\<rparr>\<rparr>"

definition process_memory_update ::
  "llm_client \<Rightarrow> io \<Rightarrow> (manager \<Rightarrow> manager) \<Rightarrow> manager \<Rightarrow> merge_result \<times> manager \<times> request list" where
  "process_memory_update llm_client env others m =
     (let pending = pending_updates (preferences m);
          m1 = drained m
      in if pending = [] then (NoUpdates, m1, [])
         else
           (let messages = merge_messages m1 pending;
                m2 = others m1
            in case llm_client messages (3 / 10) of
                 Inl e \<Rightarrow> (Error (str_exn e), restore_pending pending m2, [(messages, 3 / 10)])
               | Inr response \<Rightarrow>
                   (let new_memory = py_strip response;
                        (committed, notif, sent) =
                          (if length new_memory > MAX_MEMORY_LENGTH
                           then (let (compress_result, req) = compress_memory llm_client m2 new_memory
                                 in (memory compress_result, Some (notification compress_result),
                                     [req]))
                           else (new_memory, None, []));
                        m3 = m2\<lparr>preferences := (preferences m2)\<lparr>preference_memory := committed\<rparr>\<rparr>
                    in case save_preferences env m3 of
                         (None, m4) \<Rightarrow> (Success notif, m4, (messages, 3 / 10) # sent)
                       | (Some e, m4) \<Rightarrow>
                           (Error (str_exn e), restore_pending pending m4,
                            (messages, 3 / 10) # sent))))"

section \<open>Scheduling a merge in the background\<close>

text \<open>
  The thread \<open>schedule_memory_update\<close> starts has \<open>_run_update\<close> as its target; all that the
  closure keeps is \<open>on_complete\<close>. The callback is in the caller's hands: the model keeps
  whether one was passed, and records the argument of each call made to it.
\<close>

datatype thread = Thread bool

text \<open>
  \<open>schedule_memory_update\<close> returns the exception it raises, if any (only saving can
  raise), the state it leaves, and the thread it started, if any.
\<close>

definition schedule_memory_update ::
  "pystr \<Rightarrow> bool \<Rightarrow> io \<Rightarrow> manager \<Rightarrow> exn option \<times> manager \<times> thread option" where
  "schedule_memory_update new_info on_complete env m =
     (if new_info = [] \<or> py_strip new_info = [] then (None, m, None)
      else
        (case add_preference_update new_info True env m of
           (Some e, m1) \<Rightarrow> (Some e, m1, None)
         | (None, m1) \<Rightarrow> (None, m1, Some (Thread on_complete))))"

text \<open>
  The body of the thread, \<open>_run_update\<close>. \<open>get_llm_client()\<close> may raise (no API key); that
  exception, like one raised by the callback, is swallowed. The result is the state left
  behind, the arguments of the calls to \<open>on_complete\<close>, and the requests sent.
\<close>

definition run_update ::
  "thread \<Rightarrow> exn + llm_client \<Rightarrow> io \<Rightarrow> (manager \<Rightarrow> manager) \<Rightarrow> manager
     \<Rightarrow> manager \<times> pystr list \<times> request list" where
  "run_update th get_llm_client env others m =
     (case th of
        Thread on_complete \<Rightarrow>
          (case get_llm_client of
             Inl e \<Rightarrow> (m, [], [])
           | Inr llm \<Rightarrow>
               (let (result, m', sent) = process_memory_update llm env others m
                in (m',
                    (case get_notification result of
                       Some n \<Rightarrow> if on_complete \<and> n \<noteq> [] then [n] else []
                     | None \<Rightarrow> []),
                    sent))))"

section \<open>The migration as the specification words it\<close>

text \<open>
  The specification describes the text synthesized from a legacy record: the renderings of
  the legacy fields that are present, in a fixed order, put together. The definitions of
  this section follow those words, not the source; \<open>from_dict\<close> is compared with them below.
  The four keyword lists, each with the label it is rendered under, in the order of the
  specification:
\<close>

definition spec_legacy_lists :: "(pystr \<times> pystr) list" where
  "spec_legacy_lists =
     [(lit ''interested_keywords'', lit ''Interested in: ''),
      (lit ''not_interested_keywords'', lit ''Not interested in: ''),
      (lit ''interested_topics'', lit ''Interested topics: ''),
      (lit ''not_interested_topics'', lit ''Topics to avoid: '')]"

text \<open>
  A keyword list that is present and not empty is rendered as its label followed by its
  items, separated by a comma and a blank; any other field contributes nothing.
\<close>

definition spec_render_list :: "dict \<Rightarrow> pystr \<times> pystr \<Rightarrow> pystr list" where
  "spec_render_list data field =
     (case dict_get data (fst field) of
        Some (PList (x # xs)) \<Rightarrow>
          [snd field @ py_join (lit '', '') (map (\<lambda>v. the (as_str v)) (x # xs))]
      | _ \<Rightarrow> [])"

text \<open>The free text is rendered as it is, when it is present and not empty.\<close>

definition spec_render_custom :: "dict \<Rightarrow> pystr list" where
  "spec_render_custom data =
     (case dict_get data (lit ''custom_preferences'') of
        Some (PStr (c # cs)) \<Rightarrow> [c # cs]
      | _ \<Rightarrow> [])"

text \<open>The renderings in order, separated by one blank.\<close>

definition spec_legacy_text :: "dict \<Rightarrow> pystr" where
  "spec_legacy_text data =
     py_join (lit '' '')
       (concat (map (spec_render_list data) spec_legacy_lists) @ spec_render_custom data)"

text \<open>
  A well-formed legacy record: each keyword list is absent, \<open>null\<close> or a list of strings, and
  the free text is absent, \<open>null\<close> or a string.
\<close>

definition legacy_list_ok :: "dict \<Rightarrow> pystr \<Rightarrow> bool" where
  "legacy_list_ok data key =
     (case dict_get data key of
        None \<Rightarrow> True
      | Some PNone \<Rightarrow> True
      | Some (PList xs) \<Rightarrow> list_all (\<lambda>v. as_str v \<noteq> None) xs
      | Some _ \<Rightarrow> False)"

definition legacy_wellformed :: "dict \<Rightarrow> bool" where
  "legacy_wellformed data \<longleftrightarrow>
     list_all (\<lambda>field. legacy_list_ok data (fst field)) spec_legacy_lists \<and>
     (case dict_get data (lit ''custom_preferences'') of
        None \<Rightarrow> True
      | Some PNone \<Rightarrow> True
      | Some (PStr s) \<Rightarrow> True
      | Some _ \<Rightarrow> False)"

section \<open>Example inputs\<close>

definition example_manager :: manager where
  "example_manager = \<lparr>preferences = default_Preferences, preferences_file = NoFile\<rparr>"

definition example_io :: io where
  "example_io = \<lparr>now = lit ''2025-01-01T00:00:00'', write_error = None\<rparr>"

definition failing_llm :: llm_client where
  "failing_llm messages temperature =
     Inl (Raised ConnectionError (lit ''LLM API request timed out.''))"

definition oversize_endpoint :: endpoint where
  "oversize_endpoint messages temperature = Inr [replicate 2001 120]"

definition pending_manager :: manager where
  "pending_manager =
     \<lparr>preferences = default_Preferences\<lparr>pending_updates := [lit ''User likes RL'']\<rparr>,
      preferences_file = NoFile\<rparr>"

definition ab_manager :: manager where
  "ab_manager =
     \<lparr>preferences = default_Preferences\<lparr>pending_updates := [lit ''a'', lit ''b'']\<rparr>,
      preferences_file = NoFile\<rparr>"

definition short_endpoint :: endpoint where
  "short_endpoint messages temperature = Inr [lit ''Likes RL.'']"

definition legacy_example :: dict where
  "legacy_example =
     [(lit ''interested_keywords'', PList [PStr (lit ''RL''), PStr (lit ''RAG'')]),
      (lit ''not_interested_keywords'', PList []),
      (lit ''not_interested_topics'', PList [PStr (lit ''biology'')]),
      (lit ''custom_preferences'', PStr (lit ''Prefers surveys.''))]"

section \<open>Facts about strings\<close>

lemma lit_eq_iff [simp]: "lit a = lit b \<longleftrightarrow> a = b"
  by (simp add: lit_def inj_of_char)

lemma lit_append: "lit (a @ b) = lit a @ lit b"
  by (simp add: lit_def)

lemma lit_Nil_iff [simp]: "lit a = [] \<longleftrightarrow> a = []"
  by (simp add: lit_def)

lemma py_strip_Nil [simp]: "py_strip [] = []"
  by (simp add: py_strip_def py_lstrip_def py_rstrip_def)

lemma length_py_strip: "length (py_strip s) \<le> length s"
proof -
  have "length (py_strip s) \<le> length (rev (dropWhile is_space s))"
    unfolding py_strip_def py_rstrip_def py_lstrip_def length_rev
    by (metis length_dropWhile_le length_rev)
  also have "\<dots> \<le> length s"
    by (simp add: length_dropWhile_le)
  finally show ?thesis .
qed

lemma py_strip_eq_Nil_iff: "py_strip s = [] \<longleftrightarrow> (\<forall>c\<in>set s. is_space c)"
proof
  assume "py_strip s = []"
  then have all: "\<forall>c\<in>set (dropWhile is_space s). is_space c"
    by (simp add: py_strip_def py_rstrip_def py_lstrip_def)
  have "dropWhile is_space s = []"
  proof (rule ccontr)
    assume ne: "dropWhile is_space s \<noteq> []"
    then have "\<not> is_space (hd (dropWhile is_space s))"
      by (rule hd_dropWhile)
    moreover have "hd (dropWhile is_space s) \<in> set (dropWhile is_space s)"
      using ne by simp
    ultimately show False
      using all by blast
  qed
  then show "\<forall>c\<in>set s. is_space c"
    by simp
next
  assume "\<forall>c\<in>set s. is_space c"
  then have d: "dropWhile is_space s = []"
    by simp
  show "py_strip s = []"
    unfolding py_strip_def py_rstrip_def py_lstrip_def d by simp
qed

lemma py_strip_id:
  assumes "s \<noteq> []" and "\<not> is_space (hd s)" and "\<not> is_space (last s)"
  shows "py_strip s = s"
proof -
  have l: "dropWhile is_space s = s"
    using assms by (simp add: dropWhile_eq_self_iff)
  have "hd (rev s) = last s"
    using assms(1) by (simp add: hd_rev)
  then have r: "dropWhile is_space (rev s) = rev s"
    using assms by (simp add: dropWhile_eq_self_iff)
  show ?thesis
    by (simp add: py_strip_def py_rstrip_def py_lstrip_def l r)
qed

lemma py_strip_ends:
  assumes "py_strip s \<noteq> []"
  shows "\<not> is_space (hd (py_strip s)) \<and> \<not> is_space (last (py_strip s))"
proof -
  define u where "u = dropWhile is_space s"
  define t where "t = dropWhile is_space (rev u)"
  have st: "py_strip s = rev t"
    by (simp add: py_strip_def py_rstrip_def py_lstrip_def u_def t_def)
  have tne: "t \<noteq> []"
    using assms st by simp
  have "\<not> is_space (hd t)"
    using tne unfolding t_def by (rule hd_dropWhile)
  then have last_ok: "\<not> is_space (last (rev t))"
    using tne by (simp add: last_rev)
  have "rev u = takeWhile is_space (rev u) @ t"
    by (simp add: t_def)
  then have "rev (rev u) = rev (takeWhile is_space (rev u) @ t)"
    by simp
  then have dec: "u = rev t @ rev (takeWhile is_space (rev u))"
    by simp
  have une: "u \<noteq> []"
    using dec tne by auto
  have "hd u = hd (rev t)"
    using dec tne by (metis hd_append2 rev_is_Nil_conv)
  moreover have "\<not> is_space (hd u)"
    using une unfolding u_def by (rule hd_dropWhile)
  ultimately have "\<not> is_space (hd (rev t))"
    by simp
  with last_ok st show ?thesis
    by simp
qed

lemma py_strip_idem: "py_strip (py_strip s) = py_strip s"
proof (cases "py_strip s = []")
  case True
  then show ?thesis by simp
next
  case False
  then show ?thesis
    using py_strip_ends [OF False] by (intro py_strip_id) simp_all
qed

lemma chat_stripped: "chat ep messages t = Inr r \<Longrightarrow> py_strip r = r"
  by (auto simp: chat_def py_strip_idem split: sum.splits)

lemma split_once_SomeD: "split_once sep s = Some (a, b) \<Longrightarrow> s = a @ sep @ b"
proof (induction s arbitrary: a b)
  case Nil
  then show ?case by (simp split: if_splits)
next
  case (Cons c cs)
  show ?case
  proof (cases "take (length sep) (c # cs) = sep")
    case True
    with Cons.prems have ab: "a = []" "b = drop (length sep) (c # cs)"
      by simp_all
    have "c # cs = take (length sep) (c # cs) @ drop (length sep) (c # cs)"
      by (simp only: append_take_drop_id)
    then show ?thesis
      using True ab by simp
  next
    case False
    with Cons.prems obtain a' where "split_once sep cs = Some (a', b)" and "a = c # a'"
      by (auto split: option.splits)
    then show ?thesis
      using Cons.IH by simp
  qed
qed

lemma py_in_Cons:
  "py_in sep (c # cs) \<longleftrightarrow> take (length sep) (c # cs) = sep \<or> py_in sep cs"
  by (auto simp: py_in_def split: option.splits)

lemma split_once_first:
  assumes "sep \<noteq> []" and "\<not> py_in sep (a @ butlast sep)"
  shows "split_once sep (a @ sep @ b) = Some (a, b)"
  using assms(2)
proof (induction a)
  case Nil
  obtain x xs where sep: "sep = x # xs"
    using assms(1) by (cases sep) auto
  show ?case
    by (simp add: sep)
next
  case (Cons c a)
  from Cons.prems have n1: "take (length sep) (c # a @ butlast sep) \<noteq> sep"
    and n2: "\<not> py_in sep (a @ butlast sep)"
    by (simp_all add: py_in_Cons)
  have "c # a @ sep @ b = (c # a @ butlast sep) @ (last sep # b)"
    using assms(1) by simp
  moreover have "length sep \<le> length (c # a @ butlast sep)"
    by simp
  ultimately have "take (length sep) (c # a @ sep @ b) = take (length sep) (c # a @ butlast sep)"
    by (metis append.right_neutral diff_is_0_eq take_0 take_append)
  with n1 have "take (length sep) (c # a @ sep @ b) \<noteq> sep"
    by simp
  then show ?case
    using Cons.IH [OF n2] by simp
qed

lemma py_in_iff:
  assumes "sep \<noteq> []"
  shows "py_in sep s \<longleftrightarrow> (\<exists>a b. s = a @ sep @ b)"
proof
  assume "py_in sep s"
  then obtain a b where "split_once sep s = Some (a, b)"
    by (auto simp: py_in_def)
  then show "\<exists>a b. s = a @ sep @ b"
    using split_once_SomeD by blast
next
  assume "\<exists>a b. s = a @ sep @ b"
  then obtain a b where s: "s = a @ sep @ b"
    by blast
  obtain x xs where sep: "sep = x # xs"
    using assms by (cases sep) auto
  show "py_in sep s"
    unfolding s by (induction a) (simp_all add: py_in_Cons sep)
qed

lemma py_in_set: "py_in sep s \<Longrightarrow> set sep \<subseteq> set s"
  using split_once_SomeD by (fastforce simp: py_in_def)

section \<open>Blank fragments\<close>

lemma pending_after_save:
  "pending_updates (preferences (snd (save_preferences env m))) = pending_updates (preferences m)"
  by (simp add: save_preferences_def Let_def split: option.splits)

lemma blank_iff: "s \<noteq> [] \<and> py_strip s \<noteq> [] \<longleftrightarrow> \<not> (\<forall>c\<in>set s. is_space c)"
  using py_strip_eq_Nil_iff [of s] by auto

text \<open>
  C9. A string that is empty or holds only whitespace changes nothing: \<open>add_preference_update\<close>
  returns the manager as it was (so \<open>pending_updates\<close> and the stored file are the same),
  and \<open>schedule_memory_update\<close> returns at once, with the manager as it was and no thread
  started. For every other string, both append the fragment with its leading and trailing
  whitespace removed to \<open>pending_updates\<close>.
\<close>

theorem blank_update_is_noop:
  "((\<forall>c\<in>set s. is_space c) \<longrightarrow>
       add_preference_update s save env m = (None, m) \<and>
       schedule_memory_update s on_complete env m = (None, m, None)) \<and>
   (\<not> (\<forall>c\<in>set s. is_space c) \<longrightarrow>
       pending_updates (preferences (snd (add_preference_update s save env m))) =
         pending_updates (preferences m) @ [py_strip s] \<and>
       pending_updates (preferences (fst (snd (schedule_memory_update s on_complete env m)))) =
         pending_updates (preferences m) @ [py_strip s])"
proof (cases "\<forall>c\<in>set s. is_space c")
  case True
  then have "py_strip s = []"
    by (simp add: py_strip_eq_Nil_iff)
  then show ?thesis
    using True by (simp add: add_preference_update_def schedule_memory_update_def)
next
  case False
  then have ne: "s \<noteq> []" "py_strip s \<noteq> []"
    using blank_iff [of s] by simp_all
  have a: "pending_updates (preferences (snd (add_preference_update s sv env m))) =
         pending_updates (preferences m) @ [py_strip s]" for sv
    using ne by (simp add: add_preference_update_def Let_def pending_after_save)
  have "fst (snd (schedule_memory_update s on_complete env m)) =
          snd (add_preference_update s True env m)"
    using ne by (simp add: schedule_memory_update_def split: prod.splits option.splits)
  then show ?thesis
    using False a by auto
qed

theorem blank_update_is_noop_witness:
  "add_preference_update [32, 9] True example_io example_manager = (None, example_manager) \<and>
   schedule_memory_update [32, 9] True example_io example_manager = (None, example_manager, None) \<and>
   pending_updates (preferences (snd (add_preference_update [32, 97, 32] True example_io
     example_manager))) = [[97]]"
proof -
  have b: "\<forall>c\<in>set [32, 9::nat]. is_space c"
    by (simp add: is_space_def)
  have nb: "\<not> (\<forall>c\<in>set [32, 97, 32::nat]. is_space c)"
    by (simp add: is_space_def)
  have st: "py_strip [32, 97, 32] = [97]"
    by (simp add: py_strip_def py_lstrip_def py_rstrip_def is_space_def)
  have pe: "pending_updates (preferences example_manager) = []"
    by (simp add: example_manager_def default_Preferences_def)
  have 1: "add_preference_update [32, 9] True example_io example_manager = (None, example_manager) \<and>
      schedule_memory_update [32, 9] True example_io example_manager = (None, example_manager, None)"
    using blank_update_is_noop [where s = "[32, 9]"] b by blast
  have 2: "pending_updates (preferences (snd (add_preference_update [32, 97, 32] True example_io
      example_manager))) = pending_updates (preferences example_manager) @ [py_strip [32, 97, 32]]"
    using blank_update_is_noop [where s = "[32, 97, 32]"] nb by blast
  show ?thesis
    using 1 2 by (simp add: st pe)
qed

section \<open>A merge with nothing pending\<close>

text \<open>
  C7. When \<open>pending_updates\<close> is empty, \<open>_process_memory_update\<close> returns the
  \<open>no_updates\<close> result, leaves the whole manager as it was (the memory text and
  \<open>last_updated\<close> with it), and sends no request to the completion capability. It returns a
  result and no exception.
\<close>

theorem process_no_updates:
  "pending_updates (preferences m) = [] \<Longrightarrow>
     process_memory_update llm_client env others m = (NoUpdates, m, [])"
  by (simp add: process_memory_update_def drained_def Let_def)

theorem process_no_updates_witness:
  "pending_updates (preferences example_manager) = [] \<and>
   process_memory_update failing_llm example_io id example_manager =
     (NoUpdates, example_manager, [])"
proof -
  have pe: "pending_updates (preferences example_manager) = []"
    by (simp add: example_manager_def default_Preferences_def)
  show ?thesis
    using process_no_updates [OF pe, of failing_llm example_io id] pe by simp
qed

section \<open>Compression when the completion call fails\<close>

lemma truncated_in_notification: "py_in (lit ''truncated'') truncated_notification"
  by code_simp

text \<open>
  C3. When the completion call of \<open>_compress_memory\<close> raises, the function returns the first
  1500 characters of its input and the notification that says "truncated". The function
  returns a dictionary in every case: the handler catches every exception.
\<close>

theorem compress_failure_truncates:
  "llm_client (compress_messages m mem) (2 / 10) = Inl e \<Longrightarrow>
     fst (compress_memory llm_client m mem) =
       \<lparr>memory = take 1500 mem, notification = truncated_notification\<rparr> \<and>
     py_in (lit ''truncated'') truncated_notification"
  by (simp add: compress_memory_def Let_def TARGET_MEMORY_LENGTH_def truncated_in_notification)
theorem compress_failure_truncates_witness:
  "fst (compress_memory failing_llm example_manager (replicate 2100 120)) =
     \<lparr>memory = replicate 1500 120, notification = truncated_notification\<rparr>"
proof -
  have f: "failing_llm (compress_messages example_manager (replicate 2100 120)) (2 / 10) =
      Inl (Raised ConnectionError (lit ''LLM API request timed out.''))"
    by (simp add: failing_llm_def)
  show ?thesis
    using f compress_failure_truncates [where llm_client = failing_llm and m = example_manager
        and mem = "replicate 2100 120"
        and e = "Raised ConnectionError (lit ''LLM API request timed out.'')"]
    by simp
qed

section \<open>Facts about merging and compressing\<close>

lemma not_py_in: "\<not> py_in sep s \<Longrightarrow> split_once sep s = None"
  by (simp only: py_in_def not_not)

lemma parse_no_marker:
  "\<not> py_in (lit ''COMPRESSED_MEMORY:'') r \<Longrightarrow> parse_response r = (py_strip r, [])"
  by (simp add: parse_response_def not_py_in)

lemma parse_marker_only:
  assumes "\<not> py_in (lit ''COMPRESSED_MEMORY:'') (pre @ butlast (lit ''COMPRESSED_MEMORY:''))"
    and "\<not> py_in (lit ''REMOVED_TOPICS'') rest"
  shows "parse_response (pre @ lit ''COMPRESSED_MEMORY:'' @ rest) = (py_strip rest, [])"
proof -
  have "split_once (lit ''COMPRESSED_MEMORY:'') (pre @ lit ''COMPRESSED_MEMORY:'' @ rest) =
      Some (pre, rest)"
    using assms(1) by (intro split_once_first) simp_all
  moreover have "split_once (lit ''REMOVED_TOPICS'') rest = None"
    using assms(2) by (rule not_py_in)
  ultimately show ?thesis
    by (simp add: parse_response_def)
qed

lemma parse_both_markers:
  assumes "\<not> py_in (lit ''COMPRESSED_MEMORY:'') (pre @ butlast (lit ''COMPRESSED_MEMORY:''))"
    and "\<not> py_in (lit ''REMOVED_TOPICS'') (mid @ butlast (lit ''REMOVED_TOPICS''))"
  shows "parse_response (pre @ lit ''COMPRESSED_MEMORY:'' @ mid @ lit ''REMOVED_TOPICS'' @ tail) =
      (py_strip mid,
       (case split_once (lit '':'') tail of Some (h, rest) \<Rightarrow> py_strip rest | None \<Rightarrow> []))"
proof -
  have "split_once (lit ''COMPRESSED_MEMORY:'')
      (pre @ lit ''COMPRESSED_MEMORY:'' @ mid @ lit ''REMOVED_TOPICS'' @ tail) =
      Some (pre, mid @ lit ''REMOVED_TOPICS'' @ tail)"
    using assms(1) by (intro split_once_first) simp_all
  moreover have "split_once (lit ''REMOVED_TOPICS'') (mid @ lit ''REMOVED_TOPICS'' @ tail) =
      Some (mid, tail)"
    using assms(2) by (intro split_once_first) simp_all
  ultimately show ?thesis
    by (simp add: parse_response_def)
qed

lemma split_colon:
  assumes "\<not> py_in (lit '':'') x"
  shows "split_once (lit '':'') (x @ lit '':'' @ y) = Some (x, y)"
proof -
  have "butlast (lit '':'') = []"
    by (simp add: lit_def)
  then show ?thesis
    using assms by (intro split_once_first) simp_all
qed

lemma compress_success:
  "llm_client (compress_messages m mem) (2 / 10) = Inr r \<Longrightarrow>
     fst (compress_memory llm_client m mem) =
       \<lparr>memory = fst (parse_response r),
        notification = compressed_notification (snd (parse_response r))\<rparr>"
  by (simp add: compress_memory_def Let_def case_prod_beta)

lemma snd_compress_memory:
  "snd (compress_memory llm_client m mem) = (compress_messages m mem, 2 / 10)"
  by (simp add: compress_memory_def Let_def)

lemma sent_of_process:
  assumes "pending_updates (preferences m) \<noteq> []"
    and "llm_client (merge_messages (drained m) (pending_updates (preferences m))) (3 / 10) =
      Inr reply"
  shows "snd (snd (process_memory_update llm_client env others m)) =
      (merge_messages (drained m) (pending_updates (preferences m)), 3 / 10) #
      (if 2000 < length (py_strip reply)
       then [(compress_messages (others (drained m)) (py_strip reply), 2 / 10)] else [])"
  using assms
  by (simp add: process_memory_update_def Let_def case_prod_beta snd_compress_memory
      MAX_MEMORY_LENGTH_def split: option.splits)

lemma pending_after_add:
  assumes "\<not> (\<forall>c\<in>set s. is_space c)"
  shows "pending_updates (preferences (snd (add_preference_update s save env m))) =
      pending_updates (preferences m) @ [py_strip s]"
proof -
  have "s \<noteq> []" "py_strip s \<noteq> []"
    using assms blank_iff [of s] by simp_all
  then show ?thesis
    by (simp add: add_preference_update_def Let_def pending_after_save)
qed

lemma restore_drained: "restore_pending (pending_updates (preferences m)) (drained m) = m"
  by (simp add: restore_pending_def drained_def)

lemma process_failure:
  assumes "pending_updates (preferences m) \<noteq> []"
    and "llm_client (merge_messages (drained m) (pending_updates (preferences m))) (3 / 10) = Inl e"
  shows "process_memory_update llm_client env others m =
      (Error (str_exn e), restore_pending (pending_updates (preferences m)) (others (drained m)),
       [(merge_messages (drained m) (pending_updates (preferences m)), 3 / 10)])"
  using assms by (simp add: process_memory_update_def Let_def)

lemma hd_sent:
  assumes "pending_updates (preferences m) \<noteq> []"
  shows "hd (snd (snd (process_memory_update llm_client env others m))) =
      (merge_messages (drained m) (pending_updates (preferences m)), 3 / 10)"
  using assms
  by (simp add: process_memory_update_def Let_def case_prod_beta split: sum.splits option.splits)

lemma notification_nonempty: "notification (fst (compress_memory llm_client m mem)) \<noteq> []"
  by (simp add: compress_memory_def Let_def case_prod_beta compressed_notification_def
      truncated_notification_def mark_def split: sum.splits)

lemma process_success_Some:
  assumes "fst (process_memory_update llm_client env others m) = Success (Some n)"
  shows "n \<noteq> [] \<and>
     (\<exists>reply. 2000 < length reply \<and>
        snd (snd (process_memory_update llm_client env others m)) =
          [(merge_messages (drained m) (pending_updates (preferences m)), 3 / 10),
           (compress_messages (others (drained m)) reply, 2 / 10)])"
  using assms
  by (auto simp: process_memory_update_def Let_def case_prod_beta snd_compress_memory
      MAX_MEMORY_LENGTH_def notification_nonempty
      split: if_splits sum.splits option.splits)

lemma scheduled_thread:
  "schedule_memory_update new_info on_complete env m = (raised, m1, Some th) \<Longrightarrow>
     th = Thread on_complete"
  by (auto simp: schedule_memory_update_def split: if_splits prod.splits option.splits)

lemma run_update_calls:
  "fst (snd (run_update (Thread on_complete) (Inr llm) env others m)) =
     (case get_notification (fst (process_memory_update llm env others m)) of
        Some n \<Rightarrow> if on_complete \<and> n \<noteq> [] then [n] else []
      | None \<Rightarrow> [])"
  by (simp add: run_update_def Let_def case_prod_beta)

lemma strip_oversize: "py_strip (replicate 2001 120) = replicate 2001 120"
  by (rule py_strip_id) (simp_all add: is_space_def)

lemma chat_oversize: "chat oversize_endpoint messages t = Inr (replicate 2001 120)"
  by (simp add: chat_def oversize_endpoint_def strip_oversize)

lemma chat_short: "chat short_endpoint messages t = Inr (lit ''Likes RL.'')"
proof -
  have "py_strip (lit ''Likes RL.'') = lit ''Likes RL.''"
    by (rule py_strip_id) (simp_all add: lit_def is_space_def)
  then show ?thesis
    by (simp add: chat_def short_endpoint_def)
qed

lemma no_marker_oversize: "\<not> py_in (lit ''COMPRESSED_MEMORY:'') (replicate 2001 120)"
proof
  assume "py_in (lit ''COMPRESSED_MEMORY:'') (replicate 2001 120)"
  then have "set (lit ''COMPRESSED_MEMORY:'') \<subseteq> set (replicate 2001 (120::nat))"
    by (rule py_in_set)
  then show False
    by (simp add: lit_def)
qed

lemma process_success:
  assumes "pending_updates (preferences m) \<noteq> []"
    and "llm_client (merge_messages (drained m) (pending_updates (preferences m))) (3 / 10) =
      Inr reply"
    and "write_error env = None"
  shows "fst (process_memory_update llm_client env others m) =
      Success (if 2000 < length (py_strip reply)
               then Some (notification (fst (compress_memory llm_client (others (drained m))
                      (py_strip reply))))
               else None)"
    and "preference_memory (preferences (fst (snd (process_memory_update llm_client env others m)))) =
      (if 2000 < length (py_strip reply)
       then memory (fst (compress_memory llm_client (others (drained m)) (py_strip reply)))
       else py_strip reply)"
  using assms
  by (simp_all add: process_memory_update_def Let_def case_prod_beta save_preferences_def
      MAX_MEMORY_LENGTH_def)

lemma compress_oversize:
  "fst (compress_memory (chat oversize_endpoint) m (replicate 2001 120)) =
     \<lparr>memory = replicate 2001 120,
      notification = mark @ lit '' Memory compressed to fit size limit.''\<rparr>"
  by (simp add: compress_success [where r = "replicate 2001 120"] chat_oversize parse_no_marker
      no_marker_oversize strip_oversize compressed_notification_def)

lemma pending_manager_pending: "pending_updates (preferences pending_manager) \<noteq> []"
  by (simp add: pending_manager_def)

lemma oversize_run:
  "fst (process_memory_update (chat oversize_endpoint) example_io id pending_manager) =
     Success (Some (mark @ lit '' Memory compressed to fit size limit.''))"
  "preference_memory (preferences (fst (snd (process_memory_update (chat oversize_endpoint)
     example_io id pending_manager)))) = replicate 2001 120"
proof -
  have we: "write_error example_io = None"
    by (simp add: example_io_def)
  note p = process_success [where llm_client = "chat oversize_endpoint" and m = pending_manager
      and reply = "replicate 2001 120" and env = example_io and others = id,
      OF pending_manager_pending chat_oversize we]
  show "fst (process_memory_update (chat oversize_endpoint) example_io id pending_manager) =
     Success (Some (mark @ lit '' Memory compressed to fit size limit.''))"
    using p(1) by (simp add: strip_oversize compress_oversize)
  show "preference_memory (preferences (fst (snd (process_memory_update (chat oversize_endpoint)
     example_io id pending_manager)))) = replicate 2001 120"
    using p(2) by (simp add: strip_oversize compress_oversize)
qed

section \<open>The parser of the compression response\<close>

text \<open>
  C5. What the parser makes of a response. Without the marker \<open>COMPRESSED_MEMORY:\<close> the
  whole response (stripped) is the compressed text and nothing is reported as removed; when
  the response came from \<open>LLMClient.chat\<close> it is stripped already, so the compressed text is
  the response itself and the notification is the general one. With the marker, the
  compressed text is what follows its first occurrence, up to the first \<open>REMOVED_TOPICS\<close>
  when there is one; what follows the first colon after \<open>REMOVED_TOPICS\<close> is the report of
  what was removed, and without a colon nothing is reported. Both parts are stripped.
  "First occurrence" is written as: the marker does not occur in what precedes it, even
  when overlapping its own beginning.
\<close>

theorem parse_response_contract:
  "(\<not> py_in (lit ''COMPRESSED_MEMORY:'') r \<longrightarrow>
      parse_response r = (py_strip r, []) \<and>
      (chat ep (compress_messages m mem) (2 / 10) = Inr r \<longrightarrow>
         fst (compress_memory (chat ep) m mem) =
           \<lparr>memory = r, notification = mark @ lit '' Memory compressed to fit size limit.''\<rparr>)) \<and>
   (\<not> py_in (lit ''COMPRESSED_MEMORY:'') (pre @ butlast (lit ''COMPRESSED_MEMORY:'')) \<longrightarrow>
      (\<not> py_in (lit ''REMOVED_TOPICS'') rest \<longrightarrow>
         parse_response (pre @ lit ''COMPRESSED_MEMORY:'' @ rest) = (py_strip rest, [])) \<and>
      (\<not> py_in (lit ''REMOVED_TOPICS'') (mid @ butlast (lit ''REMOVED_TOPICS'')) \<longrightarrow>
         (\<not> py_in (lit '':'') tail \<longrightarrow>
            parse_response (pre @ lit ''COMPRESSED_MEMORY:'' @ mid @ lit ''REMOVED_TOPICS'' @ tail) =
              (py_strip mid, [])) \<and>
         (\<not> py_in (lit '':'') x \<longrightarrow>
            parse_response (pre @ lit ''COMPRESSED_MEMORY:'' @ mid @ lit ''REMOVED_TOPICS'' @
                x @ lit '':'' @ y) =
              (py_strip mid, py_strip y))))"
proof -
  have 1: "fst (compress_memory (chat ep) m mem) =
      \<lparr>memory = r, notification = mark @ lit '' Memory compressed to fit size limit.''\<rparr>"
    if "\<not> py_in (lit ''COMPRESSED_MEMORY:'') r"
      and "chat ep (compress_messages m mem) (2 / 10) = Inr r"
    using that chat_stripped [OF that(2)]
    by (simp add: compress_success parse_no_marker compressed_notification_def)
  have 2: "parse_response (pre @ lit ''COMPRESSED_MEMORY:'' @ mid @ lit ''REMOVED_TOPICS'' @ tail) =
      (py_strip mid, [])"
    if "\<not> py_in (lit ''COMPRESSED_MEMORY:'') (pre @ butlast (lit ''COMPRESSED_MEMORY:''))"
      and "\<not> py_in (lit ''REMOVED_TOPICS'') (mid @ butlast (lit ''REMOVED_TOPICS''))"
      and "\<not> py_in (lit '':'') tail"
    using that by (simp add: parse_both_markers not_py_in)
  have 3: "parse_response (pre @ lit ''COMPRESSED_MEMORY:'' @ mid @ lit ''REMOVED_TOPICS'' @
      x @ lit '':'' @ y) = (py_strip mid, py_strip y)"
    if "\<not> py_in (lit ''COMPRESSED_MEMORY:'') (pre @ butlast (lit ''COMPRESSED_MEMORY:''))"
      and "\<not> py_in (lit ''REMOVED_TOPICS'') (mid @ butlast (lit ''REMOVED_TOPICS''))"
      and "\<not> py_in (lit '':'') x"
    using that by (simp add: parse_both_markers split_colon)
  show ?thesis
    using 1 2 3 parse_no_marker parse_marker_only by blast
qed

theorem parse_response_contract_witness:
  "parse_response
     (lit ''COMPRESSED_MEMORY: likes RL REMOVED_TOPICS (if any were removed): old hobbies'') =
     (lit ''likes RL'', lit ''old hobbies'') \<and>
   parse_response (lit ''likes RL'') = (lit ''likes RL'', [])"
proof -
  have h0: "\<not> py_in (lit ''COMPRESSED_MEMORY:'') (lit ''likes RL'')"
    by code_simp
  have h1: "\<not> py_in (lit ''COMPRESSED_MEMORY:'') ([] @ butlast (lit ''COMPRESSED_MEMORY:''))"
    by code_simp
  have h2: "\<not> py_in (lit ''REMOVED_TOPICS'') (lit '' likes RL '' @ butlast (lit ''REMOVED_TOPICS''))"
    by code_simp
  have h3: "\<not> py_in (lit '':'') (lit '' (if any were removed)'')"
    by code_simp
  have s0: "py_strip (lit ''likes RL'') = lit ''likes RL''"
    by code_simp
  have s1: "py_strip (lit '' likes RL '') = lit ''likes RL''"
    by code_simp
  have s2: "py_strip (lit '' old hobbies'') = lit ''old hobbies''"
    by code_simp
  have seq: "lit ''COMPRESSED_MEMORY: likes RL REMOVED_TOPICS (if any were removed): old hobbies'' =
      [] @ lit ''COMPRESSED_MEMORY:'' @ lit '' likes RL '' @ lit ''REMOVED_TOPICS'' @
      lit '' (if any were removed)'' @ lit '':'' @ lit '' old hobbies''"
    by (simp add: lit_def)
  have e0: "parse_response (lit ''likes RL'') = (py_strip (lit ''likes RL''), [])"
    using parse_response_contract [where r = "lit ''likes RL''"] h0 by blast
  have e1: "parse_response ([] @ lit ''COMPRESSED_MEMORY:'' @ lit '' likes RL '' @
      lit ''REMOVED_TOPICS'' @ lit '' (if any were removed)'' @ lit '':'' @ lit '' old hobbies'') =
      (py_strip (lit '' likes RL ''), py_strip (lit '' old hobbies''))"
    using parse_response_contract [where pre = "[]" and mid = "lit '' likes RL ''"
        and x = "lit '' (if any were removed)''" and y = "lit '' old hobbies''"] h1 h2 h3
    by blast
  show ?thesis
    by (simp only: seq e0 e1 s0 s1 s2)
qed

section \<open>When compression runs\<close>

text \<open>
  C4. When the merge request succeeds with the text \<open>reply\<close> (as \<open>LLMClient.chat\<close> returns
  it), the requests sent are the merge request and, exactly when \<open>reply\<close> is longer than 2000
  characters, the compression request for \<open>reply\<close>.
\<close>

theorem compression_iff_over_limit:
  assumes "pending_updates (preferences m) \<noteq> []"
    and "chat ep (merge_messages (drained m) (pending_updates (preferences m))) (3 / 10) = Inr reply"
  shows "snd (snd (process_memory_update (chat ep) env others m)) =
      (merge_messages (drained m) (pending_updates (preferences m)), 3 / 10) #
      (if 2000 < length reply then [(compress_messages (others (drained m)) reply, 2 / 10)] else []) \<and>
    ((compress_messages (others (drained m)) reply, 2 / 10) \<in>
        set (snd (snd (process_memory_update (chat ep) env others m))) \<longleftrightarrow>
      2000 < length reply)"
proof -
  have s: "py_strip reply = reply"
    using assms(2) by (rule chat_stripped)
  have "snd (snd (process_memory_update (chat ep) env others m)) =
      (merge_messages (drained m) (pending_updates (preferences m)), 3 / 10) #
      (if 2000 < length reply then [(compress_messages (others (drained m)) reply, 2 / 10)] else [])"
    using sent_of_process [where llm_client = "chat ep", OF assms] by (simp add: s)
  then show ?thesis
    by simp
qed

theorem compression_iff_over_limit_witness:
  "snd (snd (process_memory_update (chat oversize_endpoint) example_io id pending_manager)) =
     [(merge_messages (drained pending_manager) (pending_updates (preferences pending_manager)),
       3 / 10),
      (compress_messages (drained pending_manager) (replicate 2001 120), 2 / 10)] \<and>
   snd (snd (process_memory_update (chat short_endpoint) example_io id pending_manager)) =
     [(merge_messages (drained pending_manager) (pending_updates (preferences pending_manager)),
       3 / 10)]"
proof -
  have 1: "snd (snd (process_memory_update (chat oversize_endpoint) example_io id pending_manager)) =
     [(merge_messages (drained pending_manager) (pending_updates (preferences pending_manager)),
       3 / 10),
      (compress_messages (drained pending_manager) (replicate 2001 120), 2 / 10)]"
    using compression_iff_over_limit [where ep = oversize_endpoint and m = pending_manager
        and reply = "replicate 2001 120" and env = example_io and others = id,
        OF pending_manager_pending chat_oversize]
    by simp
  have 2: "snd (snd (process_memory_update (chat short_endpoint) example_io id pending_manager)) =
     [(merge_messages (drained pending_manager) (pending_updates (preferences pending_manager)),
       3 / 10)]"
    using compression_iff_over_limit [where ep = short_endpoint and m = pending_manager
        and reply = "lit ''Likes RL.''" and env = example_io and others = id,
        OF pending_manager_pending chat_short]
    by (simp add: lit_def)
  show ?thesis
    using 1 2 by simp
qed

section \<open>A merge whose completion call fails\<close>

text \<open>
  C2. When the merge request raises, the result is the error with the message of the
  exception, the drained fragments stand in front of whatever \<open>pending_updates\<close> holds by then
  (the fragments other threads enqueued during the call), and the memory text is what it was.
  When nothing else ran, the whole manager is as before the call. In particular, with
  \<open>[a, b]\<close> pending, a failed merge and then a fragment \<open>c\<close> enqueued, \<open>pending_updates\<close> is
  \<open>[a, b, c]\<close> (\<open>c\<close> stripped, as every enqueued fragment is), and the next merge builds its
  request from these three, in this order.
\<close>

theorem failed_merge_restores_pending:
  assumes "pending_updates (preferences m) \<noteq> []"
    and "llm_client (merge_messages (drained m) (pending_updates (preferences m))) (3 / 10) = Inl e"
  shows "fst (process_memory_update llm_client env others m) = Error (str_exn e) \<and>
     pending_updates (preferences (fst (snd (process_memory_update llm_client env others m)))) =
       pending_updates (preferences m) @ pending_updates (preferences (others (drained m))) \<and>
     preference_memory (preferences (fst (snd (process_memory_update llm_client env others m)))) =
       preference_memory (preferences (others (drained m))) \<and>
     fst (snd (process_memory_update llm_client env id m)) = m \<and>
     (pending_updates (preferences m) = [a, b] \<and> \<not> (\<forall>ch\<in>set c. is_space ch) \<longrightarrow>
        (let m2 = snd (add_preference_update c save env2
                         (fst (snd (process_memory_update llm_client env id m))))
         in pending_updates (preferences m2) = [a, b, py_strip c] \<and>
            hd (snd (snd (process_memory_update llm2 env3 others2 m2))) =
              (merge_messages (drained m2) [a, b, py_strip c], 3 / 10)))"
proof -
  have f: "process_memory_update llm_client env oth m =
      (Error (str_exn e), restore_pending (pending_updates (preferences m)) (oth (drained m)),
       [(merge_messages (drained m) (pending_updates (preferences m)), 3 / 10)])" for oth
    using assms by (simp add: process_memory_update_def Let_def)
  have 1: "fst (process_memory_update llm_client env others m) = Error (str_exn e)"
    by (simp add: f)
  have 2: "pending_updates (preferences (fst (snd (process_memory_update llm_client env others m)))) =
       pending_updates (preferences m) @ pending_updates (preferences (others (drained m)))"
    by (simp add: f restore_pending_def)
  have 3: "preference_memory (preferences (fst (snd (process_memory_update llm_client env others m)))) =
       preference_memory (preferences (others (drained m)))"
    by (simp add: f restore_pending_def)
  have 4: "fst (snd (process_memory_update llm_client env id m)) = m"
    by (simp add: f restore_drained)
  have 5: "pending_updates (preferences m2) = [a, b, py_strip c] \<and>
      hd (snd (snd (process_memory_update llm2 env3 others2 m2))) =
        (merge_messages (drained m2) [a, b, py_strip c], 3 / 10)"
    if ab: "pending_updates (preferences m) = [a, b]" and nb: "\<not> (\<forall>ch\<in>set c. is_space ch)"
      and m2: "m2 = snd (add_preference_update c save env2 m)" for m2
  proof -
    have p: "pending_updates (preferences m2) = [a, b, py_strip c]"
      unfolding m2 using pending_after_add [OF nb, of save env2 m] ab by simp
    then have "pending_updates (preferences m2) \<noteq> []"
      by simp
    from hd_sent [OF this, of llm2 env3 others2] p show ?thesis
      by simp
  qed
  show ?thesis
    using 1 2 3 5 by (simp add: 4 Let_def)
qed

theorem failed_merge_restores_pending_witness:
  "fst (process_memory_update failing_llm example_io id ab_manager) =
     Error (lit ''LLM API request timed out.'') \<and>
   fst (snd (process_memory_update failing_llm example_io id ab_manager)) = ab_manager \<and>
   pending_updates (preferences (snd (add_preference_update (lit ''c'') True example_io
     (fst (snd (process_memory_update failing_llm example_io id ab_manager)))))) =
     [lit ''a'', lit ''b'', lit ''c'']"
proof -
  have p: "pending_updates (preferences ab_manager) = [lit ''a'', lit ''b'']"
    by (simp add: ab_manager_def)
  have ne: "pending_updates (preferences ab_manager) \<noteq> []"
    by (simp add: p)
  have f: "failing_llm (merge_messages (drained ab_manager)
      (pending_updates (preferences ab_manager))) (3 / 10) =
      Inl (Raised ConnectionError (lit ''LLM API request timed out.''))"
    by (simp add: failing_llm_def)
  have nb: "\<not> (\<forall>ch\<in>set (lit ''c''). is_space ch)"
    by (simp add: lit_def is_space_def)
  have st: "py_strip (lit ''c'') = lit ''c''"
    by (simp add: lit_def py_strip_def py_lstrip_def py_rstrip_def is_space_def)
  note t = failed_merge_restores_pending [where llm_client = failing_llm and m = ab_manager
      and e = "Raised ConnectionError (lit ''LLM API request timed out.'')" and env = example_io
      and others = id and a = "lit ''a''" and b = "lit ''b''" and c = "lit ''c''" and save = True
      and ?env2.0 = example_io, OF ne f]
  from t p nb have t1: "fst (process_memory_update failing_llm example_io id ab_manager) =
      Error (str_exn (Raised ConnectionError (lit ''LLM API request timed out.'')))"
    and t4: "fst (snd (process_memory_update failing_llm example_io id ab_manager)) = ab_manager"
    and t5: "pending_updates (preferences (snd (add_preference_update (lit ''c'') True example_io
      (fst (snd (process_memory_update failing_llm example_io id ab_manager)))))) =
      [lit ''a'', lit ''b'', lit ''c'']"
    unfolding Let_def st by blast+
  show ?thesis
    using t1 t4 t5 by simp
qed

section \<open>The callback of a scheduled merge\<close>

text \<open>
  C6. For a thread started by \<open>schedule_memory_update\<close>, in whatever state it finds the
  manager: \<open>on_complete\<close> is called at most once; it is not called when no client can be
  obtained, when there is nothing pending, when the merge fails, or when the merge succeeds
  without a notification; it is called (if one was passed) with the notification when the
  merge succeeds with one, and then the compression request was sent for a text longer than
  2000 characters.
\<close>

theorem on_complete_only_after_compression:
  assumes "schedule_memory_update new_info on_complete env0 m0 = (raised, m1, Some th)"
  shows "length (fst (snd (run_update th get_llm_client env others m))) \<le> 1 \<and>
     (\<forall>e. get_llm_client = Inl e \<longrightarrow>
        fst (snd (run_update th get_llm_client env others m)) = []) \<and>
     (\<forall>llm. get_llm_client = Inr llm \<longrightarrow>
        (case fst (process_memory_update llm env others m) of
           NoUpdates \<Rightarrow> fst (snd (run_update th get_llm_client env others m)) = []
         | Error msg \<Rightarrow> fst (snd (run_update th get_llm_client env others m)) = []
         | Success None \<Rightarrow> fst (snd (run_update th get_llm_client env others m)) = []
         | Success (Some n) \<Rightarrow>
             fst (snd (run_update th get_llm_client env others m)) =
               (if on_complete then [n] else []) \<and>
             (\<exists>reply. 2000 < length reply \<and>
                snd (snd (process_memory_update llm env others m)) =
                  [(merge_messages (drained m) (pending_updates (preferences m)), 3 / 10),
                   (compress_messages (others (drained m)) reply, 2 / 10)])))"
proof -
  have th: "th = Thread on_complete"
    using assms by (rule scheduled_thread)
  have A: "fst (snd (run_update th get_llm_client env others m)) = []" if "get_llm_client = Inl e" for e
    by (simp add: th that run_update_def)
  have B: "(case fst (process_memory_update llm env others m) of
           NoUpdates \<Rightarrow> fst (snd (run_update th get_llm_client env others m)) = []
         | Error msg \<Rightarrow> fst (snd (run_update th get_llm_client env others m)) = []
         | Success None \<Rightarrow> fst (snd (run_update th get_llm_client env others m)) = []
         | Success (Some n) \<Rightarrow>
             fst (snd (run_update th get_llm_client env others m)) =
               (if on_complete then [n] else []) \<and>
             (\<exists>reply. 2000 < length reply \<and>
                snd (snd (process_memory_update llm env others m)) =
                  [(merge_messages (drained m) (pending_updates (preferences m)), 3 / 10),
                   (compress_messages (others (drained m)) reply, 2 / 10)]))"
    if g: "get_llm_client = Inr llm" for llm
  proof (cases "fst (process_memory_update llm env others m)")
    case NoUpdates
    then show ?thesis by (simp add: th g run_update_calls)
  next
    case (Error msg)
    then show ?thesis by (simp add: th g run_update_calls)
  next
    case (Success opt)
    show ?thesis
    proof (cases opt)
      case None
      with Success show ?thesis by (simp add: th g run_update_calls)
    next
      case (Some n)
      with Success have s: "fst (process_memory_update llm env others m) = Success (Some n)"
        by simp
      from process_success_Some [OF s] show ?thesis
        by (simp add: th g run_update_calls s)
    qed
  qed
  have C: "length (fst (snd (run_update th get_llm_client env others m))) \<le> 1"
  proof (cases get_llm_client)
    case (Inl e)
    show ?thesis using A [OF Inl] by simp
  next
    case (Inr llm)
    then show ?thesis
      by (simp add: th run_update_calls split: option.splits)
  qed
  show ?thesis
    using A B C by blast
qed

theorem on_complete_only_after_compression_witness:
  "fst (snd (run_update (Thread True) (Inr (chat oversize_endpoint)) example_io id
     pending_manager)) = [mark @ lit '' Memory compressed to fit size limit.''] \<and>
   fst (snd (run_update (Thread True) (Inr failing_llm) example_io id pending_manager)) = []"
proof -
  have nb: "\<not> (\<forall>ch\<in>set (lit ''likes RL''). is_space ch)"
    by (simp add: lit_def is_space_def)
  then have ne: "lit ''likes RL'' \<noteq> []" "py_strip (lit ''likes RL'') \<noteq> []"
    using blank_iff [of "lit ''likes RL''"] by simp_all
  have "snd (snd (schedule_memory_update (lit ''likes RL'') True example_io example_manager)) =
      Some (Thread True)"
    using ne
    by (simp add: schedule_memory_update_def add_preference_update_def save_preferences_def
        example_io_def Let_def)
  then have s: "schedule_memory_update (lit ''likes RL'') True example_io example_manager =
      (fst (schedule_memory_update (lit ''likes RL'') True example_io example_manager),
       fst (snd (schedule_memory_update (lit ''likes RL'') True example_io example_manager)),
       Some (Thread True))"
    by (metis prod.collapse)
  have f: "fst (process_memory_update failing_llm example_io id pending_manager) =
      Error (lit ''LLM API request timed out.'')"
    using pending_manager_pending
    by (simp add: process_memory_update_def Let_def failing_llm_def)
  have 1: "fst (snd (run_update (Thread True) (Inr (chat oversize_endpoint)) example_io id
     pending_manager)) = [mark @ lit '' Memory compressed to fit size limit.'']"
    using on_complete_only_after_compression [OF s, where get_llm_client = "Inr (chat oversize_endpoint)"
        and env = example_io and others = id and m = pending_manager] oversize_run(1)
    by simp
  have 2: "fst (snd (run_update (Thread True) (Inr failing_llm) example_io id pending_manager)) = []"
    using on_complete_only_after_compression [OF s, where get_llm_client = "Inr failing_llm"
        and env = example_io and others = id and m = pending_manager] f
    by simp
  show ?thesis
    using 1 2 by simp
qed

section \<open>The size of the committed memory\<close>

text \<open>
  C1. The length of the committed text is not bounded by 2000 when the compression call
  succeeds: the parsed response is committed unchecked. Here the merge returns 2001
  characters, the compression call returns the same 2001 characters, and the merge succeeds
  with a memory of 2001 characters and the notification "compressed to fit size limit".
\<close>

theorem oversize_memory_committed:
  "fst (process_memory_update (chat oversize_endpoint) example_io id pending_manager) =
     Success (Some (mark @ lit '' Memory compressed to fit size limit.'')) \<and>
   length (preference_memory (preferences (fst (snd (process_memory_update
     (chat oversize_endpoint) example_io id pending_manager))))) = 2001"
  by (simp add: oversize_run)

section \<open>Facts about loading and saving\<close>

lemma and_then_Inr [simp]: "and_then (Inr x) f = f x"
  by (simp add: and_then_def)

lemma and_then_Inl [simp]: "and_then (Inl e) f = Inl e"
  by (simp add: and_then_def)

lemma and_then_eq_Inr: "and_then r f = Inr y \<longleftrightarrow> (\<exists>x. r = Inr x \<and> f x = Inr y)"
  by (cases r) simp_all

lemma join_value_strs: "join_value sep (PList (map PStr xs)) = Inr (py_join sep xs)"
proof -
  have "map (\<lambda>x. the (as_str x)) (map PStr xs) = xs"
    by (induction xs) simp_all
  moreover have "list_all (\<lambda>x. as_str x \<noteq> None) (map PStr xs)"
    by (induction xs) simp_all
  ultimately show ?thesis
    by (simp add: join_value_def)
qed

lemma legacy_part_spec:
  assumes "legacy_list_ok data key"
  shows "legacy_part data key label = Inr (spec_render_list data (key, label))"
  using assms
  by (auto simp: legacy_list_ok_def legacy_part_def spec_render_list_def dict_get_or_def
      join_value_def split: option.splits py.splits list.splits)

lemma custom_spec:
  assumes "case dict_get data (lit ''custom_preferences'') of
        None \<Rightarrow> True
      | Some PNone \<Rightarrow> True
      | Some (PStr s) \<Rightarrow> True
      | Some _ \<Rightarrow> False"
  shows "join_value (lit '' '')
      (PList (map PStr parts @
         (if truthy (dict_get_or data (lit ''custom_preferences'') PNone)
          then [dict_get_or data (lit ''custom_preferences'') PNone] else []))) =
      Inr (py_join (lit '' '') (parts @ spec_render_custom data))"
proof -
  have "map PStr parts @
         (if truthy (dict_get_or data (lit ''custom_preferences'') PNone)
          then [dict_get_or data (lit ''custom_preferences'') PNone] else []) =
      map PStr (parts @ spec_render_custom data)"
    using assms
    by (auto simp: dict_get_or_def spec_render_custom_def
        split: option.splits py.splits list.splits)
  then show ?thesis
    by (simp only: join_value_strs)
qed

lemma migrate_spec:
  assumes "legacy_wellformed data"
  shows "migrate data = Inr (spec_legacy_text data)"
proof -
  from assms have l: "legacy_list_ok data (lit ''interested_keywords'')"
      "legacy_list_ok data (lit ''not_interested_keywords'')"
      "legacy_list_ok data (lit ''interested_topics'')"
      "legacy_list_ok data (lit ''not_interested_topics'')"
    and c: "case dict_get data (lit ''custom_preferences'') of
        None \<Rightarrow> True
      | Some PNone \<Rightarrow> True
      | Some (PStr s) \<Rightarrow> True
      | Some _ \<Rightarrow> False"
    by (simp_all add: legacy_wellformed_def spec_legacy_lists_def)
  show ?thesis
    unfolding migrate_def legacy_part_spec [OF l(1)] legacy_part_spec [OF l(2)]
      legacy_part_spec [OF l(3)] legacy_part_spec [OF l(4)] and_then_Inr Let_def
      custom_spec [OF c]
    by (simp add: spec_legacy_text_def spec_legacy_lists_def)
qed

lemma from_dict_memory:
  assumes "from_dict (PDict data) = Inr p"
  shows "(let pm = dict_get_or data (lit ''preference_memory'') (PStr [])
          in if \<not> truthy pm then migrate data else to_str pm) = Inr (preference_memory p)"
  using assms by (auto simp: from_dict_def and_then_eq_Inr)

lemma map_err_to_str: "map_err to_str (map PStr xs) = Inr xs"
  by (induction xs) simp_all

lemma to_str_list_of_str_list: "to_str_list (of_str_list xs) = Inr xs"
  by (simp add: of_str_list_def map_err_to_str)

lemma to_opt_str_of: "to_opt_str (of_opt_str v) = Inr v"
  by (cases v) (simp_all add: of_opt_str_def)

lemma to_opt_int_of: "to_opt_int (of_opt_int v) = Inr v"
  by (cases v) (simp_all add: of_opt_int_def)

lemma to_opt_bool_of: "to_opt_bool (of_opt_bool v) = Inr v"
  by (cases v) (simp_all add: of_opt_bool_def)

lemma to_opt_str_list_of: "to_opt_str_list (of_opt_str_list v) = Inr v"
  by (cases v) (simp_all add: of_opt_str_list_def of_str_list_def map_err_to_str)

lemma QueryRecord_roundtrip: "QueryRecord_from_dict (QueryRecord_to_dict q) = Inr q"
  by (simp add: QueryRecord_from_dict_def QueryRecord_to_dict_def kwarg_def dict_get_def)

lemma FeedbackRecord_roundtrip: "FeedbackRecord_from_dict (FeedbackRecord_to_dict f) = Inr f"
  by (simp add: FeedbackRecord_from_dict_def FeedbackRecord_to_dict_def kwarg_def dict_get_def)

lemma query_history_roundtrip:
  "from_dict_each QueryRecord_from_dict (PList (map QueryRecord_to_dict qs)) = Inr qs"
  by (induction qs) (simp_all add: from_dict_each_def QueryRecord_roundtrip)

lemma feedback_history_roundtrip:
  "from_dict_each FeedbackRecord_from_dict (PList (map FeedbackRecord_to_dict fs)) = Inr fs"
  by (induction fs) (simp_all add: from_dict_each_def FeedbackRecord_roundtrip)

lemma migrate_to_dict:
  "to_dict p = PDict data \<Longrightarrow> migrate data = Inr []"
  by (auto simp: to_dict_def migrate_def legacy_part_def dict_get_or_def dict_get_def
      join_value_def Let_def)

section \<open>Migration of the legacy schema\<close>

text \<open>
  C8. For a well-formed legacy record without a \<open>preference_memory\<close> entry, the migration
  branch of \<open>from_dict\<close> yields the text of the specification: the renderings of the keyword
  lists that are present and not empty, in the order interested keywords, not-interested
  keywords, interested topics, avoided topics, then the free text, joined by single blanks.
  Whenever loading such a record succeeds, this is the memory text of the result. The text
  is a function of the record, so the same record always gives the same text.
\<close>

theorem migration_synthesizes_text:
  assumes "dict_get data (lit ''preference_memory'') = None"
    and "legacy_wellformed data"
  shows "migrate data = Inr (spec_legacy_text data) \<and>
     (\<forall>p. load_preferences (Json (PDict data)) = Inr p \<longrightarrow>
        preference_memory p = spec_legacy_text data)"
proof -
  have m: "migrate data = Inr (spec_legacy_text data)"
    using assms(2) by (rule migrate_spec)
  have "preference_memory p = spec_legacy_text data"
    if "load_preferences (Json (PDict data)) = Inr p" for p
  proof -
    from that have "from_dict (PDict data) = Inr p"
      by (simp add: load_preferences_def)
    from from_dict_memory [OF this] show ?thesis
      using assms(1) by (simp add: dict_get_or_def m)
  qed
  with m show ?thesis
    by blast
qed

theorem migration_synthesizes_text_witness:
  "load_preferences (Json (PDict legacy_example)) =
     Inr (default_Preferences
       \<lparr>preference_memory :=
          lit ''Interested in: RL, RAG Topics to avoid: biology Prefers surveys.''\<rparr>) \<and>
   spec_legacy_text legacy_example =
     lit ''Interested in: RL, RAG Topics to avoid: biology Prefers surveys.''"
proof -
  have h1: "dict_get legacy_example (lit ''preference_memory'') = None"
    by (simp add: legacy_example_def dict_get_def)
  have h2: "legacy_wellformed legacy_example"
    by (simp add: legacy_wellformed_def spec_legacy_lists_def legacy_list_ok_def
        legacy_example_def dict_get_def)
  have l: "load_preferences (Json (PDict legacy_example)) =
     Inr (default_Preferences
       \<lparr>preference_memory :=
          lit ''Interested in: RL, RAG Topics to avoid: biology Prefers surveys.''\<rparr>)"
    by (simp add: load_preferences_def from_dict_def migrate_def legacy_part_def join_value_def
        dict_get_or_def dict_get_def legacy_example_def from_dict_each_def
        default_Preferences_def lit_def)
  from migration_synthesizes_text [OF h1 h2] l
  have "preference_memory (default_Preferences
       \<lparr>preference_memory :=
          lit ''Interested in: RL, RAG Topics to avoid: biology Prefers surveys.''\<rparr>) =
     spec_legacy_text legacy_example"
    by blast
  then have "spec_legacy_text legacy_example =
     lit ''Interested in: RL, RAG Topics to avoid: biology Prefers surveys.''"
    by simp
  with l show ?thesis
    by simp
qed

section \<open>Serialization round trip\<close>

text \<open>
  C10. \<open>from_dict\<close> applied to the result of \<open>to_dict\<close> gives back the value \<open>to_dict\<close> was
  applied to, for every value of \<open>Preferences\<close>. (The migration branch runs when the memory
  text is empty and then finds no legacy field, so it yields the empty text again.)
\<close>

theorem from_dict_to_dict: "from_dict (to_dict p) = Inr p"
proof -
  obtain data where d: "to_dict p = PDict data"
    by (simp add: to_dict_def)
  have m: "migrate data = Inr []"
    using d by (rule migrate_to_dict)
  have g: "dict_get_or data (lit ''preference_memory'') (PStr []) = PStr (preference_memory p)"
    using d by (auto simp: to_dict_def dict_get_or_def dict_get_def)
  have pm: "(let pm = dict_get_or data (lit ''preference_memory'') (PStr [])
          in if \<not> truthy pm then migrate data else to_str pm) = Inr (preference_memory p)"
    unfolding Let_def g by (simp add: m)
  have rest: "dict_get_or data (lit ''pending_updates'') (PList []) = of_str_list (pending_updates p)"
    "dict_get_or data (lit ''query_history'') (PList []) =
       PList (map QueryRecord_to_dict (query_history p))"
    "dict_get_or data (lit ''feedback_history'') (PList []) =
       PList (map FeedbackRecord_to_dict (feedback_history p))"
    "dict_get_or data (lit ''language'') PNone = of_opt_str (language p)"
    "dict_get_or data (lit ''search_mode'') PNone = of_opt_str (search_mode p)"
    "dict_get_or data (lit ''max_workers'') PNone = of_opt_int (max_workers p)"
    "dict_get_or data (lit ''save_to_local'') PNone = of_opt_bool (save_to_local p)"
    "dict_get_or data (lit ''output_dir'') PNone = of_opt_str (output_dir p)"
    "dict_get_or data (lit ''save_results'') PNone = of_opt_bool (save_results p)"
    "dict_get_or data (lit ''max_display'') PNone = of_opt_int (max_display p)"
    "dict_get_or data (lit ''auto_summary'') PNone = of_opt_bool (auto_summary p)"
    "dict_get_or data (lit ''arxiv_categories'') PNone = of_opt_str_list (arxiv_categories p)"
    "dict_get_or data (lit ''last_updated'') (PStr []) = PStr (last_updated p)"
    using d by (auto simp: to_dict_def dict_get_or_def dict_get_def)
  show ?thesis
    unfolding d from_dict_def py.case pm rest
    by (simp add: to_str_list_of_str_list query_history_roundtrip feedback_history_roundtrip
        to_opt_str_of to_opt_int_of to_opt_bool_of to_opt_str_list_of)
qed

theorem from_dict_to_dict_witness: "from_dict (to_dict default_Preferences) = Inr default_Preferences"
  using from_dict_to_dict [of default_Preferences] by simp

end
